theory Spec2Isabelle
  imports Main "HOL-Library.Word"
begin

section \<open>Data model\<close>

text \<open>
  The Kubernetes and Consul API objects, restricted to the fields the connect-inject
  code reads or writes. Go maps of strings are partial functions, Go slices are lists,
  a nil pointer is \<open>None\<close>.
\<close>

record container_port =
  PortName :: string
  ContainerPort :: int

record volume_mount =
  VolumeMountName :: string
  MountPath :: string

record env_var =
  EnvName :: string
  FieldPath :: string

record capabilities =
  Add :: "string list"
  Drop :: "string list"

record security_context =
  RunAsUser :: "int option"
  RunAsGroup :: "int option"
  RunAsNonRoot :: "bool option"
  Privileged :: "bool option"
  ReadOnlyRootFilesystem :: "bool option"
  Capabilities :: "capabilities option"

record resource_requirements =
  Limits :: "string \<rightharpoonup> string"
  Requests :: "string \<rightharpoonup> string"

record container =
  Name :: string
  Image :: string
  Command :: "string list"
  Env :: "env_var list"
  Resources :: resource_requirements
  Ports :: "container_port list"
  VolumeMounts :: "volume_mount list"
  SecurityContext :: "security_context option"

record pod =
  PodName :: string
  PodNamespace :: string
  Annotations :: "string \<rightharpoonup> string"
  ServiceAccountName :: string
  Containers :: "container list"
  HostIP :: string
  PodIP :: string

record namespace =
  NamespaceName :: string
  Labels :: "string \<rightharpoonup> string"

text \<open>
  The annotation keys, label keys and metadata keys are constants of the package that
  are declared outside the files at hand. They are taken as a parameter \<open>K\<close>.
\<close>

record pkg_consts =
  keyTransparentProxy :: string
  keyConsulDNS :: string
  annotationService :: string
  annotationPort :: string
  annotationUpstreams :: string
  annotationTags :: string
  annotationConnectTags :: string
  annotationMeta :: string
  annotationStatus :: string
  injected :: string
  annotationPrometheusCAFile :: string
  annotationPrometheusCAPath :: string
  annotationPrometheusCertFile :: string
  annotationPrometheusKeyFile :: string
  annotationTProxyExcludeInboundPorts :: string
  annotationTProxyExcludeOutboundPorts :: string
  annotationTProxyExcludeOutboundCIDRs :: string
  annotationTProxyExcludeUIDs :: string
  MetaKeyPodName :: string
  MetaKeyKubeServiceName :: string
  MetaKeyKubeNS :: string
  volumeName :: string

text \<open>
  Errors are values. Each \<open>fmt.Errorf\<close> of the code is one constructor; an error
  handed up from a collaborator keeps the collaborator's message.
\<close>

datatype error =
    ErrParseBool string
  | ErrEnvNotFound string
  | ErrCollaborator string
  | ErrPrometheusCA
  | ErrPrometheusCert
  | ErrPrometheusKey
  | ErrPortValue string
  | ErrNoProxyDefaults string
  | ErrMeshGatewayMode string
  | ErrIndexOutOfRange
  | ErrKubernetes string
  | ErrConsul string

section \<open>Annotation and label resolution\<close>

text \<open>
  \<open>strconv.ParseBool\<close> of the Go standard library: it accepts exactly the twelve
  spellings below and returns a syntax error on every other string.
\<close>

definition ParseBool :: "string \<Rightarrow> error + bool" where
  "ParseBool str =
     (if str \<in> set [''1'', ''t'', ''T'', ''true'', ''TRUE'', ''True''] then Inr True
      else if str \<in> set [''0'', ''f'', ''F'', ''false'', ''FALSE'', ''False''] then Inr False
      else Inl (ErrParseBool str))"

definition validBool :: "string \<Rightarrow> bool" where
  "validBool str \<longleftrightarrow>
     str \<in> set [''1'', ''t'', ''T'', ''true'', ''TRUE'', ''True'',
                ''0'', ''f'', ''F'', ''false'', ''FALSE'', ''False'']"

definition transparentProxyEnabled :: "pkg_consts \<Rightarrow> namespace \<Rightarrow> pod \<Rightarrow> bool \<Rightarrow> error + bool" where
  "transparentProxyEnabled K ns p globalEnabled =
     (case Annotations p (keyTransparentProxy K) of
        Some raw \<Rightarrow> ParseBool raw
      | None \<Rightarrow>
         (case Labels ns (keyTransparentProxy K) of
            Some raw \<Rightarrow> ParseBool raw
          | None \<Rightarrow> Inr globalEnabled))"

definition consulDNSEnabled :: "pkg_consts \<Rightarrow> namespace \<Rightarrow> pod \<Rightarrow> bool \<Rightarrow> error + bool" where
  "consulDNSEnabled K ns p globalEnabled =
     (case Annotations p (keyConsulDNS K) of
        Some raw \<Rightarrow> ParseBool raw
      | None \<Rightarrow>
         (case Labels ns (keyConsulDNS K) of
            Some raw \<Rightarrow> ParseBool raw
          | None \<Rightarrow> Inr globalEnabled))"

definition isTrue :: "string \<Rightarrow> bool" where
  "isTrue str \<longleftrightarrow> str \<in> set [''1'', ''t'', ''T'', ''true'', ''TRUE'', ''True'']"

section \<open>String functions of the Go standard library\<close>

text \<open>
  Go strings are byte sequences; \<open>string\<close> is used for them, one \<open>char\<close> per byte.
\<close>

definition HasPrefix :: "string \<Rightarrow> string \<Rightarrow> bool" where
  "HasPrefix s pre \<longleftrightarrow> take (length pre) s = pre"

definition TrimPrefix :: "string \<Rightarrow> string \<Rightarrow> string" where
  "TrimPrefix s pre = (if HasPrefix s pre then drop (length pre) s else s)"

definition HasSuffix :: "string \<Rightarrow> string \<Rightarrow> bool" where
  "HasSuffix s suf \<longleftrightarrow> HasPrefix (rev s) (rev suf)"

fun Contains :: "string \<Rightarrow> string \<Rightarrow> bool" where
  "Contains [] sub = (sub = [])"
| "Contains (x # xs) sub = (HasPrefix (x # xs) sub \<or> Contains xs sub)"

text \<open>
  \<open>strings.Split(s, sep)\<close> and \<open>strings.SplitN(s, sep, n)\<close> for a separator of one
  byte, the only kind the package uses. \<open>SplitN\<close> returns at most \<open>n\<close> pieces, the
  last one being the unsplit rest, and no piece at all for \<open>n = 0\<close>.
\<close>

fun Split :: "string \<Rightarrow> char \<Rightarrow> string list" where
  "Split [] sep = [[]]"
| "Split (x # xs) sep =
     (if x = sep then [] # Split xs sep
      else (case Split xs sep of [] \<Rightarrow> [[x]] | y # ys \<Rightarrow> (x # y) # ys))"

fun splitPieces :: "nat \<Rightarrow> string \<Rightarrow> char \<Rightarrow> string list" where
  "splitPieces n [] sep = [[]]"
| "splitPieces n (x # xs) sep =
     (if x = sep \<and> 1 < n then [] # splitPieces (n - 1) xs sep
      else (case splitPieces n xs sep of [] \<Rightarrow> [[x]] | y # ys \<Rightarrow> (x # y) # ys))"

definition SplitN :: "string \<Rightarrow> char \<Rightarrow> nat \<Rightarrow> string list" where
  "SplitN s sep n = (if n = 0 then [] else splitPieces n s sep)"

fun Join :: "string list \<Rightarrow> string \<Rightarrow> string" where
  "Join [] sep = []"
| "Join [x] sep = x"
| "Join (x # y # ys) sep = x @ sep @ Join (y # ys) sep"

text \<open>
  \<open>strings.TrimSpace\<close> removes leading and trailing white space as Unicode defines it.
  On the UTF-8 bytes of a string these are the six ASCII characters and the encodings
  of U+0085, U+00A0, U+1680, U+2000 to U+200A, U+2028, U+2029, U+202F, U+205F, U+3000.
\<close>

definition spaceRunes :: "string list" where
  "spaceRunes =
     [[CHR 0x09], [CHR 0x0A], [CHR 0x0B], [CHR 0x0C], [CHR 0x0D], [CHR 0x20],
      [CHR 0xC2, CHR 0x85], [CHR 0xC2, CHR 0xA0], [CHR 0xE1, CHR 0x9A, CHR 0x80],
      [CHR 0xE2, CHR 0x80, CHR 0x80], [CHR 0xE2, CHR 0x80, CHR 0x81],
      [CHR 0xE2, CHR 0x80, CHR 0x82], [CHR 0xE2, CHR 0x80, CHR 0x83],
      [CHR 0xE2, CHR 0x80, CHR 0x84], [CHR 0xE2, CHR 0x80, CHR 0x85],
      [CHR 0xE2, CHR 0x80, CHR 0x86], [CHR 0xE2, CHR 0x80, CHR 0x87],
      [CHR 0xE2, CHR 0x80, CHR 0x88], [CHR 0xE2, CHR 0x80, CHR 0x89],
      [CHR 0xE2, CHR 0x80, CHR 0x8A], [CHR 0xE2, CHR 0x80, CHR 0xA8],
      [CHR 0xE2, CHR 0x80, CHR 0xA9], [CHR 0xE2, CHR 0x80, CHR 0xAF],
      [CHR 0xE2, CHR 0x81, CHR 0x9F], [CHR 0xE3, CHR 0x80, CHR 0x80]]"

definition leadingSpace :: "string \<Rightarrow> nat" where
  "leadingSpace s = (case filter (HasPrefix s) spaceRunes of [] \<Rightarrow> 0 | r # _ \<Rightarrow> length r)"

function TrimLeftSpace :: "string \<Rightarrow> string" where
  "TrimLeftSpace s = (if leadingSpace s = 0 then s else TrimLeftSpace (drop (leadingSpace s) s))"
  by pat_completeness auto
termination
proof (relation "measure length")
  show "wf (measure length)" by simp
next
  fix s :: string
  assume "leadingSpace s \<noteq> 0"
  moreover have "leadingSpace [] = 0"
    by (simp add: leadingSpace_def HasPrefix_def spaceRunes_def)
  ultimately have "s \<noteq> []" by auto
  with \<open>leadingSpace s \<noteq> 0\<close> show "(drop (leadingSpace s) s, s) \<in> measure length"
    by simp
qed

definition trailingSpace :: "string \<Rightarrow> nat" where
  "trailingSpace s = (case filter (HasSuffix s) spaceRunes of [] \<Rightarrow> 0 | r # _ \<Rightarrow> length r)"

function TrimRightSpace :: "string \<Rightarrow> string" where
  "TrimRightSpace s =
     (if trailingSpace s = 0 then s else TrimRightSpace (take (length s - trailingSpace s) s))"
  by pat_completeness auto
termination
proof (relation "measure length")
  show "wf (measure length)" by simp
next
  fix s :: string
  assume "trailingSpace s \<noteq> 0"
  moreover have "trailingSpace [] = 0"
    by (simp add: trailingSpace_def HasSuffix_def HasPrefix_def spaceRunes_def)
  ultimately have "s \<noteq> []" by auto
  with \<open>trailingSpace s \<noteq> 0\<close>
  show "(take (length s - trailingSpace s) s, s) \<in> measure length"
    by simp
qed

definition TrimSpace :: "string \<Rightarrow> string" where
  "TrimSpace s = TrimRightSpace (TrimLeftSpace s)"

definition toUpperByte :: "char \<Rightarrow> char" where
  "toUpperByte c =
     (if 97 \<le> (of_char c :: nat) \<and> (of_char c :: nat) \<le> 122 then char_of ((of_char c :: nat) - 32)
      else c)"

text \<open>
  \<open>strings.ToUpper\<close> on ASCII text. Bytes outside \<open>a\<close> to \<open>z\<close> are kept; letters
  outside ASCII, which Go also maps, do not occur in a Kubernetes resource name.
\<close>

definition ToUpper :: "string \<Rightarrow> string" where
  "ToUpper s = map toUpperByte s"

definition ReplaceAllByte :: "string \<Rightarrow> char \<Rightarrow> char \<Rightarrow> string" where
  "ReplaceAllByte s old new = map (\<lambda>c. if c = old then new else c) s"

text \<open>Decimal rendering of an integer, as \<open>fmt\<close> and \<open>text/template\<close> print it.\<close>

definition digitChar :: "nat \<Rightarrow> char" where
  "digitChar d =
     (if d = 0 then CHR ''0'' else if d = 1 then CHR ''1'' else if d = 2 then CHR ''2''
      else if d = 3 then CHR ''3'' else if d = 4 then CHR ''4'' else if d = 5 then CHR ''5''
      else if d = 6 then CHR ''6'' else if d = 7 then CHR ''7'' else if d = 8 then CHR ''8''
      else CHR ''9'')"

function natDigits :: "nat \<Rightarrow> string" where
  "natDigits n = (if n < 10 then [digitChar n] else natDigits (n div 10) @ [digitChar (n mod 10)])"
  by pat_completeness auto
termination
  by (relation "measure (\<lambda>n. n)") auto

definition intString :: "int \<Rightarrow> string" where
  "intString i = (if i < 0 then CHR ''-'' # natDigits (nat (- i)) else natDigits (nat i))"

section \<open>The init container (container\_init.go)\<close>

definition InjectInitCopyContainerName :: string where
  "InjectInitCopyContainerName = ''copy-consul-bin''"

definition InjectInitContainerName :: string where
  "InjectInitContainerName = ''consul-connect-inject-init''"

definition rootUserAndGroupID :: int where
  "rootUserAndGroupID = 0"

definition envoyUserAndGroupID :: int where
  "envoyUserAndGroupID = 5995"

definition initContainersUserAndGroupID :: int where
  "initContainersUserAndGroupID = 5996"

definition netAdminCapability :: string where
  "netAdminCapability = ''NET_ADMIN''"

definition dnsServiceHostEnvSuffix :: string where
  "dnsServiceHostEnvSuffix = ''DNS_SERVICE_HOST''"

text \<open>
  \<open>multiPortInfo\<close>: the index is a Go \<open>int\<close>, 64 bits wide on the platforms the
  project is built for; \<open>+\<close> on it wraps.
\<close>

record multiPortInfo =
  serviceIndex :: "64 word"
  serviceName :: string

record initContainerCommandData =
  ServiceName :: string
  ServiceAccountName_d :: string
  AuthMethod_d :: string
  ConsulPartition_d :: string
  ConsulNamespace :: string
  NamespaceMirroringEnabled :: bool
  ConsulCACert_d :: string
  EnableMetrics :: bool
  PrometheusScrapePath :: string
  PrometheusBackendPort :: string
  PrometheusCAFile :: string
  PrometheusCAPath :: string
  PrometheusCertFile :: string
  PrometheusKeyFile :: string
  EnvoyUID :: int
  EnableTransparentProxy_d :: bool
  EnableCNI_d :: bool
  TProxyExcludeInboundPorts :: "string list"
  TProxyExcludeOutboundPorts :: "string list"
  TProxyExcludeOutboundCIDRs :: "string list"
  TProxyExcludeUIDs :: "string list"
  ConsulDNSClusterIP :: string
  MultiPort :: bool
  EnvoyAdminPort :: "64 word"
  BearerTokenFile :: string
  ConsulAPITimeout_d :: int

text \<open>The fields of \<open>MeshWebhook\<close> that the two container builders read.\<close>

record MeshWebhook =
  ImageConsul :: string
  ImageConsulK8S :: string
  InitContainerResources :: resource_requirements
  EnableOpenShift :: bool
  AuthMethod :: string
  ConsulPartition :: string
  EnableK8SNSMirroring :: bool
  ConsulCACert :: string
  EnableTransparentProxy :: bool
  EnableConsulDNS :: bool
  EnableCNI :: bool
  ResourcePrefix :: string
  ConsulAPITimeout :: int

text \<open>
  What the code calls but the files at hand do not define: the process environment, the
  methods of the webhook and of its metrics configuration that live in other files, the
  helpers \<open>findServiceAccountVolumeMount\<close> and \<open>portValue\<close>, and the printing of a
  \<open>time.Duration\<close>. They are parameters of the model. A Go result \<open>(v, err)\<close> whose
  value is only read when \<open>err\<close> is nil is a sum with the error message on the left;
  \<open>portValue\<close>, whose value is read next to its error, returns the pair.
\<close>

record deps =
  Getenv :: "string \<Rightarrow> string"
  consulNamespace :: "MeshWebhook \<Rightarrow> string \<Rightarrow> string"
  findServiceAccountVolumeMount :: "pod \<Rightarrow> bool \<Rightarrow> string \<Rightarrow> string + (volume_mount \<times> string)"
  shouldRunMergedMetricsServer :: "pod \<Rightarrow> string + bool"
  prometheusScrapePath :: "pod \<Rightarrow> string"
  mergedMetricsPort :: "pod \<Rightarrow> string + string"
  durationString :: "int \<Rightarrow> string"
  portValue :: "pod \<Rightarrow> string \<Rightarrow> int \<times> string option"

definition bindE :: "error + 'a \<Rightarrow> ('a \<Rightarrow> error + 'b) \<Rightarrow> error + 'b" where
  "bindE m f = (case m of Inl e \<Rightarrow> Inl e | Inr x \<Rightarrow> f x)"

definition collab :: "string + 'a \<Rightarrow> error + 'a" where
  "collab r = (case r of Inl msg \<Rightarrow> Inl (ErrCollaborator msg) | Inr x \<Rightarrow> Inr x)"

text \<open>\<open>m[k]\<close> on a Go map of strings: the empty string when the key is absent.\<close>

definition lookupOrEmpty :: "(string \<rightharpoonup> string) \<Rightarrow> string \<Rightarrow> string" where
  "lookupOrEmpty m k = (case m k of Some v \<Rightarrow> v | None \<Rightarrow> [])"

definition initCopyContainer :: "pkg_consts \<Rightarrow> MeshWebhook \<Rightarrow> container" where
  "initCopyContainer K w =
     \<lparr> Name = InjectInitCopyContainerName,
       Image = ImageConsul w,
       Command = [''/bin/sh'', ''-ec'', ''cp /bin/consul /consul/connect-inject/consul''],
       Env = [],
       Resources = InitContainerResources w,
       Ports = [],
       VolumeMounts = [\<lparr> VolumeMountName = volumeName K, MountPath = ''/consul/connect-inject'' \<rparr>],
       SecurityContext =
         (if \<not> EnableOpenShift w
          then Some \<lparr> RunAsUser = Some initContainersUserAndGroupID,
                      RunAsGroup = Some initContainersUserAndGroupID,
                      RunAsNonRoot = Some True,
                      Privileged = None,
                      ReadOnlyRootFilesystem = Some True,
                      Capabilities = None \<rparr>
          else None) \<rparr>"

definition constructDNSServiceHostName :: "MeshWebhook \<Rightarrow> string" where
  "constructDNSServiceHostName w =
     Join [ReplaceAllByte (ToUpper (ResourcePrefix w)) CHR ''-'' CHR ''_'', dnsServiceHostEnvSuffix] ''_''"

definition splitCommaSeparatedItemsFromAnnotation :: "string \<Rightarrow> pod \<Rightarrow> string list" where
  "splitCommaSeparatedItemsFromAnnotation annotation p =
     (case Annotations p annotation of Some raw \<Rightarrow> Split raw CHR '','' | None \<Rightarrow> [])"

text \<open>
  \<open>if raw, ok := pod.Annotations[k]; ok && raw != "" { field = raw }\<close> on a field that
  holds the empty string before.
\<close>

definition nonEmptyAnnotation :: "pod \<Rightarrow> string \<Rightarrow> string" where
  "nonEmptyAnnotation p k =
     (case Annotations p k of Some raw \<Rightarrow> (if raw \<noteq> [] then raw else []) | None \<Rightarrow> [])"

text \<open>
  The first part of \<open>containerInit\<close>: everything up to and including the reading of the
  Prometheus TLS annotations. It returns the template data, the volume mounts and the
  resolved transparent-proxy flag.
\<close>

definition containerInitData ::
  "deps \<Rightarrow> pkg_consts \<Rightarrow> MeshWebhook \<Rightarrow> namespace \<Rightarrow> pod \<Rightarrow> multiPortInfo
     \<Rightarrow> error + (initContainerCommandData \<times> volume_mount list \<times> bool)" where
  "containerInitData D K w ns p mpi =
     bindE (transparentProxyEnabled K ns p (EnableTransparentProxy w)) (\<lambda>tproxyEnabled.
     bindE (consulDNSEnabled K ns p (EnableConsulDNS w)) (\<lambda>dnsEnabled.
     bindE (if dnsEnabled
            then (if Getenv D (constructDNSServiceHostName w) = []
                  then Inl (ErrEnvNotFound (constructDNSServiceHostName w))
                  else Inr (Getenv D (constructDNSServiceHostName w)))
            else Inr []) (\<lambda>consulDNSClusterIP.
     let multiPort = (serviceName mpi \<noteq> []);
         data0 = \<lparr> ServiceName = [],
                   ServiceAccountName_d = [],
                   AuthMethod_d = AuthMethod w,
                   ConsulPartition_d = ConsulPartition w,
                   ConsulNamespace = consulNamespace D w (NamespaceName ns),
                   NamespaceMirroringEnabled = EnableK8SNSMirroring w,
                   ConsulCACert_d = ConsulCACert w,
                   EnableMetrics = False,
                   PrometheusScrapePath = [],
                   PrometheusBackendPort = [],
                   PrometheusCAFile = [],
                   PrometheusCAPath = [],
                   PrometheusCertFile = [],
                   PrometheusKeyFile = [],
                   EnvoyUID = envoyUserAndGroupID,
                   EnableTransparentProxy_d = tproxyEnabled,
                   EnableCNI_d = EnableCNI w,
                   TProxyExcludeInboundPorts =
                     splitCommaSeparatedItemsFromAnnotation (annotationTProxyExcludeInboundPorts K) p,
                   TProxyExcludeOutboundPorts =
                     splitCommaSeparatedItemsFromAnnotation (annotationTProxyExcludeOutboundPorts K) p,
                   TProxyExcludeOutboundCIDRs =
                     splitCommaSeparatedItemsFromAnnotation (annotationTProxyExcludeOutboundCIDRs K) p,
                   TProxyExcludeUIDs =
                     splitCommaSeparatedItemsFromAnnotation (annotationTProxyExcludeUIDs K) p,
                   ConsulDNSClusterIP = consulDNSClusterIP,
                   MultiPort = multiPort,
                   EnvoyAdminPort = 19000 + serviceIndex mpi,
                   BearerTokenFile = [],
                   ConsulAPITimeout_d = ConsulAPITimeout w \<rparr>;
         volMounts0 = [\<lparr> VolumeMountName = volumeName K, MountPath = ''/consul/connect-inject'' \<rparr>];
         data1 = data0 \<lparr> ServiceName :=
                   (if multiPort then serviceName mpi
                    else lookupOrEmpty (Annotations p) (annotationService K)) \<rparr>
     in
     bindE (if AuthMethod w \<noteq> []
            then bindE (collab (findServiceAccountVolumeMount D p multiPort (serviceName mpi)))
                   (\<lambda>(saTokenVolumeMount, bearerTokenFile).
                      Inr (data1 \<lparr> ServiceAccountName_d :=
                                     (if multiPort then serviceName mpi else ServiceAccountName p),
                                   BearerTokenFile := bearerTokenFile \<rparr>,
                           volMounts0 @ [saTokenVolumeMount]))
            else Inr (data1, volMounts0)) (\<lambda>(data2, volMounts).
     bindE (collab (shouldRunMergedMetricsServer D p)) (\<lambda>metricsServer.
     bindE (if metricsServer
            then bindE (collab (mergedMetricsPort D p)) (\<lambda>mergedPort.
                   Inr (data2 \<lparr> PrometheusScrapePath := prometheusScrapePath D p,
                                PrometheusBackendPort := mergedPort \<rparr>))
            else Inr data2) (\<lambda>data3.
     Inr (data3 \<lparr> PrometheusCAFile := nonEmptyAnnotation p (annotationPrometheusCAFile K),
                  PrometheusCAPath := nonEmptyAnnotation p (annotationPrometheusCAPath K),
                  PrometheusCertFile := nonEmptyAnnotation p (annotationPrometheusCertFile K),
                  PrometheusKeyFile := nonEmptyAnnotation p (annotationPrometheusKeyFile K) \<rparr>,
          volMounts, tproxyEnabled)))))))"

text \<open>The validation of the Prometheus TLS fields; \<open>None\<close> when it passes.\<close>

definition prometheusTLSError :: "initContainerCommandData \<Rightarrow> error option" where
  "prometheusTLSError data =
     (if PrometheusCertFile data \<noteq> [] \<or> PrometheusKeyFile data \<noteq> []
         \<or> PrometheusCAFile data \<noteq> [] \<or> PrometheusCAPath data \<noteq> []
      then (if PrometheusCAFile data = [] \<and> PrometheusCAPath data = [] then Some ErrPrometheusCA
            else if PrometheusCertFile data = [] then Some ErrPrometheusCert
            else if PrometheusKeyFile data = [] then Some ErrPrometheusKey
            else None)
      else None)"

subsection \<open>The command template\<close>

text \<open>
  \<open>initContainerCommandTpl\<close>, executed by \<open>text/template\<close> on the data. Every action
  of the template that sits on a line of its own opens with the trim marker, which removes
  the line break and the indentation before it, so the output is the concatenation of the
  pieces below: each flag of the template is a line break, two blanks, the flag, a blank
  and a backslash. An \<open>if\<close> on a string is true when the string is not empty.
\<close>

definition nl :: string where
  "nl = [CHR 0x0A]"

definition cont :: string where
  "cont = [CHR 0x20, CHR 0x5C]"

definition quoted :: "string \<Rightarrow> string" where
  "quoted s = [CHR 0x22] @ s @ [CHR 0x22]"

definition flagLine :: "string \<Rightarrow> string" where
  "flagLine body = nl @ ''  '' @ body @ cont"

definition optFlag :: "string \<Rightarrow> string \<Rightarrow> string" where
  "optFlag name v = (if v \<noteq> [] then flagLine (name @ quoted v) else [])"

definition renderAddresses :: "initContainerCommandData \<Rightarrow> string" where
  "renderAddresses data =
     (if ConsulCACert_d data \<noteq> []
      then nl @ ''export CONSUL_HTTP_ADDR='' @ quoted ''https://${HOST_IP}:8501''
         @ nl @ ''export CONSUL_GRPC_ADDR='' @ quoted ''https://${HOST_IP}:8502''
         @ nl @ ''export CONSUL_CACERT=/consul/connect-inject/consul-ca.pem''
         @ nl @ ''cat <<EOF >/consul/connect-inject/consul-ca.pem''
         @ nl @ ConsulCACert_d data
         @ nl @ ''EOF''
      else nl @ ''export CONSUL_HTTP_ADDR='' @ quoted ''${HOST_IP}:8500''
         @ nl @ ''export CONSUL_GRPC_ADDR='' @ quoted ''${HOST_IP}:8502'')"

definition renderConnectInit :: "deps \<Rightarrow> initContainerCommandData \<Rightarrow> string" where
  "renderConnectInit D data =
     nl @ ''consul-k8s-control-plane connect-init -pod-name=${POD_NAME} -pod-namespace=${POD_NAMESPACE}''
       @ cont
     @ flagLine (''-consul-api-timeout='' @ durationString D (ConsulAPITimeout_d data))
     @ (if AuthMethod_d data \<noteq> []
        then flagLine (''-acl-auth-method='' @ quoted (AuthMethod_d data))
           @ flagLine (''-service-account-name='' @ quoted (ServiceAccountName_d data))
           @ flagLine (''-service-name='' @ quoted (ServiceName data))
           @ flagLine (''-bearer-token-file='' @ BearerTokenFile data)
           @ (if MultiPort data
              then flagLine (''-acl-token-sink=/consul/connect-inject/acl-token-'' @ ServiceName data)
              else [])
           @ (if ConsulNamespace data \<noteq> []
              then (if NamespaceMirroringEnabled data
                    then flagLine (''-auth-method-namespace='' @ quoted ''default'')
                    else flagLine (''-auth-method-namespace='' @ quoted (ConsulNamespace data)))
              else [])
        else [])
     @ (if MultiPort data
        then flagLine ''-multiport=true''
           @ flagLine (''-proxy-id-file=/consul/connect-inject/proxyid-'' @ ServiceName data)
           @ (if \<not> (AuthMethod_d data \<noteq> [])
              then flagLine (''-service-name='' @ quoted (ServiceName data))
              else [])
        else [])
     @ optFlag ''-partition='' (ConsulPartition_d data)
     @ optFlag ''-consul-service-namespace='' (ConsulNamespace data)"

definition renderEnvoyBootstrap :: "initContainerCommandData \<Rightarrow> string" where
  "renderEnvoyBootstrap data =
     nl @ nl @ ''# Generate the envoy bootstrap code''
     @ nl @ ''/consul/connect-inject/consul connect envoy'' @ cont
     @ (if MultiPort data
        then flagLine (''-proxy-id='' @ quoted (''$(cat /consul/connect-inject/proxyid-'' @ ServiceName data @ '')''))
        else flagLine (''-proxy-id='' @ quoted ''$(cat /consul/connect-inject/proxyid)''))
     @ optFlag ''-prometheus-scrape-path='' (PrometheusScrapePath data)
     @ optFlag ''-prometheus-backend-port='' (PrometheusBackendPort data)
     @ optFlag ''-prometheus-ca-file='' (PrometheusCAFile data)
     @ optFlag ''-prometheus-ca-path='' (PrometheusCAPath data)
     @ optFlag ''-prometheus-cert-file='' (PrometheusCertFile data)
     @ optFlag ''-prometheus-key-file='' (PrometheusKeyFile data)
     @ (if AuthMethod_d data \<noteq> []
        then (if MultiPort data
              then flagLine (''-token-file='' @ quoted (''/consul/connect-inject/acl-token-'' @ ServiceName data))
              else flagLine (''-token-file='' @ quoted ''/consul/connect-inject/acl-token''))
        else [])
     @ optFlag ''-partition='' (ConsulPartition_d data)
     @ optFlag ''-namespace='' (ConsulNamespace data)
     @ (if MultiPort data
        then flagLine (''-admin-bind=127.0.0.1:'' @ intString (sint (EnvoyAdminPort data)))
        else [])
     @ nl @ ''  -bootstrap > ''
     @ (if MultiPort data
        then ''/consul/connect-inject/envoy-bootstrap-'' @ ServiceName data @ ''.yaml''
        else ''/consul/connect-inject/envoy-bootstrap.yaml'')"

definition renderRedirectTraffic :: "initContainerCommandData \<Rightarrow> string" where
  "renderRedirectTraffic data =
     (if EnableTransparentProxy_d data
      then (if \<not> EnableCNI_d data
            then nl @ nl @ ''# Apply traffic redirection rules.''
               @ nl @ ''/consul/connect-inject/consul connect redirect-traffic'' @ cont
               @ (if AuthMethod_d data \<noteq> []
                  then flagLine (''-token-file='' @ quoted ''/consul/connect-inject/acl-token'')
                  else [])
               @ optFlag ''-partition='' (ConsulPartition_d data)
               @ optFlag ''-namespace='' (ConsulNamespace data)
               @ optFlag ''-consul-dns-ip='' (ConsulDNSClusterIP data)
               @ concat (map (\<lambda>x. flagLine (''-exclude-inbound-port='' @ quoted x))
                           (TProxyExcludeInboundPorts data))
               @ concat (map (\<lambda>x. flagLine (''-exclude-outbound-port='' @ quoted x))
                           (TProxyExcludeOutboundPorts data))
               @ concat (map (\<lambda>x. flagLine (''-exclude-outbound-cidr='' @ quoted x))
                           (TProxyExcludeOutboundCIDRs data))
               @ concat (map (\<lambda>x. flagLine (''-exclude-uid='' @ quoted x))
                           (TProxyExcludeUIDs data))
               @ flagLine (''-proxy-id='' @ quoted ''$(cat /consul/connect-inject/proxyid)'')
               @ nl @ ''  -proxy-uid='' @ intString (EnvoyUID data)
            else [])
      else [])"

definition renderCommand :: "deps \<Rightarrow> initContainerCommandData \<Rightarrow> string" where
  "renderCommand D data =
     renderAddresses data @ renderConnectInit D data @ renderEnvoyBootstrap data
       @ renderRedirectTraffic data"

subsection \<open>The container\<close>

definition initSecurityContext :: "bool \<Rightarrow> bool \<Rightarrow> security_context option" where
  "initSecurityContext tproxyEnabled enableCNI =
     (if tproxyEnabled
      then (if \<not> enableCNI
            then Some \<lparr> RunAsUser = Some rootUserAndGroupID,
                        RunAsGroup = Some rootUserAndGroupID,
                        RunAsNonRoot = Some False,
                        Privileged = Some True,
                        ReadOnlyRootFilesystem = None,
                        Capabilities = Some \<lparr> Add = [netAdminCapability], Drop = [] \<rparr> \<rparr>
            else Some \<lparr> RunAsUser = Some initContainersUserAndGroupID,
                        RunAsGroup = Some initContainersUserAndGroupID,
                        RunAsNonRoot = Some True,
                        Privileged = Some False,
                        ReadOnlyRootFilesystem = None,
                        Capabilities = Some \<lparr> Add = [], Drop = [''ALL''] \<rparr> \<rparr>)
      else None)"

definition containerInit ::
  "deps \<Rightarrow> pkg_consts \<Rightarrow> MeshWebhook \<Rightarrow> namespace \<Rightarrow> pod \<Rightarrow> multiPortInfo \<Rightarrow> error + container" where
  "containerInit D K w ns p mpi =
     bindE (containerInitData D K w ns p mpi) (\<lambda>(data, volMounts, tproxyEnabled).
       (case prometheusTLSError data of
          Some e \<Rightarrow> Inl e
        | None \<Rightarrow>
            Inr \<lparr> Name = (if serviceName mpi \<noteq> []
                          then InjectInitContainerName @ ''-'' @ serviceName mpi
                          else InjectInitContainerName),
                  Image = ImageConsulK8S w,
                  Command = [''/bin/sh'', ''-ec'', renderCommand D data],
                  Env = [\<lparr> EnvName = ''HOST_IP'', FieldPath = ''status.hostIP'' \<rparr>,
                         \<lparr> EnvName = ''POD_IP'', FieldPath = ''status.podIP'' \<rparr>,
                         \<lparr> EnvName = ''POD_NAME'', FieldPath = ''metadata.name'' \<rparr>,
                         \<lparr> EnvName = ''POD_NAMESPACE'', FieldPath = ''metadata.namespace'' \<rparr>],
                  Resources = InitContainerResources w,
                  Ports = [],
                  VolumeMounts = volMounts,
                  SecurityContext = initSecurityContext tproxyEnabled (EnableCNI w) \<rparr>))"

text \<open>
  Vocabulary for statements about \<open>containerInit\<close>: an annotation is given when its key
  is present with a value that is not empty; the call reaches the TLS validation when no
  earlier step has returned an error.
\<close>

definition annotationGiven :: "pod \<Rightarrow> string \<Rightarrow> bool" where
  "annotationGiven p k = (case Annotations p k of Some raw \<Rightarrow> raw \<noteq> [] | None \<Rightarrow> False)"

definition reachesTLSValidation ::
  "deps \<Rightarrow> pkg_consts \<Rightarrow> MeshWebhook \<Rightarrow> namespace \<Rightarrow> pod \<Rightarrow> multiPortInfo \<Rightarrow> bool" where
  "reachesTLSValidation D K w ns p mpi =
     (case containerInitData D K w ns p mpi of Inl e \<Rightarrow> False | Inr d \<Rightarrow> True)"

definition isTLSError :: "error \<Rightarrow> bool" where
  "isTLSError e \<longleftrightarrow> e = ErrPrometheusCA \<or> e = ErrPrometheusCert \<or> e = ErrPrometheusKey"

section \<open>Test fixtures\<close>

definition testK :: pkg_consts where
  "testK = \<lparr> keyTransparentProxy = ''consul.hashicorp.com/transparent-proxy'',
             keyConsulDNS = ''consul.hashicorp.com/consul-dns'',
             annotationService = ''consul.hashicorp.com/connect-service'',
             annotationPort = ''consul.hashicorp.com/connect-service-port'',
             annotationUpstreams = ''consul.hashicorp.com/connect-service-upstreams'',
             annotationTags = ''consul.hashicorp.com/service-tags'',
             annotationConnectTags = ''consul.hashicorp.com/connect-service-tags'',
             annotationMeta = ''consul.hashicorp.com/service-meta-'',
             annotationStatus = ''consul.hashicorp.com/connect-inject-status'',
             injected = ''injected'',
             annotationPrometheusCAFile = ''consul.hashicorp.com/prometheus-ca-file'',
             annotationPrometheusCAPath = ''consul.hashicorp.com/prometheus-ca-path'',
             annotationPrometheusCertFile = ''consul.hashicorp.com/prometheus-cert-file'',
             annotationPrometheusKeyFile = ''consul.hashicorp.com/prometheus-key-file'',
             annotationTProxyExcludeInboundPorts =
               ''consul.hashicorp.com/transparent-proxy-exclude-inbound-ports'',
             annotationTProxyExcludeOutboundPorts =
               ''consul.hashicorp.com/transparent-proxy-exclude-outbound-ports'',
             annotationTProxyExcludeOutboundCIDRs =
               ''consul.hashicorp.com/transparent-proxy-exclude-outbound-cidrs'',
             annotationTProxyExcludeUIDs =
               ''consul.hashicorp.com/transparent-proxy-exclude-uids'',
             MetaKeyPodName = ''pod-name'',
             MetaKeyKubeServiceName = ''k8s-service-name'',
             MetaKeyKubeNS = ''k8s-namespace'',
             volumeName = ''consul-connect-inject-data'' \<rparr>"

definition emptyContainer :: container where
  "emptyContainer = \<lparr> Name = [], Image = [], Command = [], Env = [],
                      Resources = \<lparr> Limits = Map.empty, Requests = Map.empty \<rparr>,
                      Ports = [], VolumeMounts = [], SecurityContext = None \<rparr>"

definition testPod :: "(string \<rightharpoonup> string) \<Rightarrow> pod" where
  "testPod anns = \<lparr> PodName = ''test-pod'', PodNamespace = ''test-namespace'',
                     Annotations = anns, ServiceAccountName = '''',
                     Containers = [emptyContainer\<lparr> Name := ''web'' \<rparr>,
                                   emptyContainer\<lparr> Name := ''web-side'' \<rparr>],
                     HostIP = ''1.1.1.1'', PodIP = ''2.2.2.2'' \<rparr>"

definition testNS :: "(string \<rightharpoonup> string) \<Rightarrow> namespace" where
  "testNS ls = \<lparr> NamespaceName = ''k8snamespace'', Labels = ls \<rparr>"


definition testDeps :: deps where
  "testDeps = \<lparr> Getenv = (\<lambda>name. if name = ''CONSUL_DNS_SERVICE_HOST'' then ''10.0.34.16'' else []),
                consulNamespace = (\<lambda>w ns. []),
                findServiceAccountVolumeMount =
                  (\<lambda>p multiPort name.
                     Inr (\<lparr> VolumeMountName = ''sa'',
                             MountPath = ''/var/run/secrets/kubernetes.io/serviceaccount'' \<rparr>,
                          ''/var/run/secrets/kubernetes.io/serviceaccount/token'')),
                shouldRunMergedMetricsServer = (\<lambda>p. Inr False),
                prometheusScrapePath = (\<lambda>p. ''/metrics''),
                mergedMetricsPort = (\<lambda>p. Inr ''20100''),
                durationString = (\<lambda>d. if d = 0 then ''0s'' else ''5s''),
                portValue = (\<lambda>p v. (0, Some ''strconv.ParseInt: invalid syntax'')) \<rparr>"

definition testWebhook :: MeshWebhook where
  "testWebhook = \<lparr> ImageConsul = [], ImageConsulK8S = [],
                   InitContainerResources = \<lparr> Limits = Map.empty, Requests = Map.empty \<rparr>,
                   EnableOpenShift = False, AuthMethod = [], ConsulPartition = [],
                   EnableK8SNSMirroring = False, ConsulCACert = [],
                   EnableTransparentProxy = False, EnableConsulDNS = False, EnableCNI = False,
                   ResourcePrefix = ''consul'', ConsulAPITimeout = 0 \<rparr>"

definition noMultiPort :: multiPortInfo where
  "noMultiPort = \<lparr> serviceIndex = 0, serviceName = [] \<rparr>"

definition tlsPod :: "string \<Rightarrow> string \<Rightarrow> string \<Rightarrow> string \<Rightarrow> pod" where
  "tlsPod caFile caPath certFile keyFile =
     testPod [annotationService testK \<mapsto> ''web'',
              annotationPrometheusCAFile testK \<mapsto> caFile,
              annotationPrometheusCAPath testK \<mapsto> caPath,
              annotationPrometheusCertFile testK \<mapsto> certFile,
              annotationPrometheusKeyFile testK \<mapsto> keyFile]"

definition webAdmin :: multiPortInfo where
  "webAdmin = \<lparr> serviceIndex = 1, serviceName = ''web-admin'' \<rparr>"

definition multiPortPod :: pod where
  "multiPortPod = testPod [annotationService testK \<mapsto> ''web,web-admin'']"

definition web :: multiPortInfo where
  "web = \<lparr> serviceIndex = 0, serviceName = ''web'' \<rparr>"

section \<open>Three-tier boolean resolution\<close>

lemma ParseBool_valid: "validBool s \<Longrightarrow> ParseBool s = Inr (isTrue s)"
  by (auto simp: validBool_def ParseBool_def isTrue_def)

lemma ParseBool_invalid: "\<not> validBool s \<Longrightarrow> ParseBool s = Inl (ErrParseBool s)"
  by (auto simp: validBool_def ParseBool_def)

lemma testK_keys:
  "keyTransparentProxy testK = ''consul.hashicorp.com/transparent-proxy''"
  "keyConsulDNS testK = ''consul.hashicorp.com/consul-dns''"
  by (simp_all add: testK_def)

text \<open>
  C1. Both three-tier resolvers (transparent proxy, Consul DNS) return the parsed pod
  annotation when the annotation key is present; the parsed namespace label when the
  annotation is absent and the label is present; the global default when both are absent.
  When the consulted value is present but is not a valid boolean the result is an error,
  never the value of the next tier.
\<close>

theorem three_tier_resolution:
  "(Annotations p (keyTransparentProxy K) = Some a \<and> validBool a \<longrightarrow>
      transparentProxyEnabled K ns p g = Inr (isTrue a)) \<and>
   (Annotations p (keyTransparentProxy K) = Some a \<and> \<not> validBool a \<longrightarrow>
      transparentProxyEnabled K ns p g = Inl (ErrParseBool a)) \<and>
   (Annotations p (keyTransparentProxy K) = None \<and> Labels ns (keyTransparentProxy K) = Some l
      \<and> validBool l \<longrightarrow> transparentProxyEnabled K ns p g = Inr (isTrue l)) \<and>
   (Annotations p (keyTransparentProxy K) = None \<and> Labels ns (keyTransparentProxy K) = Some l
      \<and> \<not> validBool l \<longrightarrow> transparentProxyEnabled K ns p g = Inl (ErrParseBool l)) \<and>
   (Annotations p (keyTransparentProxy K) = None \<and> Labels ns (keyTransparentProxy K) = None \<longrightarrow>
      transparentProxyEnabled K ns p g = Inr g) \<and>
   (Annotations p (keyConsulDNS K) = Some a' \<and> validBool a' \<longrightarrow>
      consulDNSEnabled K ns p g' = Inr (isTrue a')) \<and>
   (Annotations p (keyConsulDNS K) = Some a' \<and> \<not> validBool a' \<longrightarrow>
      consulDNSEnabled K ns p g' = Inl (ErrParseBool a')) \<and>
   (Annotations p (keyConsulDNS K) = None \<and> Labels ns (keyConsulDNS K) = Some l'
      \<and> validBool l' \<longrightarrow> consulDNSEnabled K ns p g' = Inr (isTrue l')) \<and>
   (Annotations p (keyConsulDNS K) = None \<and> Labels ns (keyConsulDNS K) = Some l'
      \<and> \<not> validBool l' \<longrightarrow> consulDNSEnabled K ns p g' = Inl (ErrParseBool l')) \<and>
   (Annotations p (keyConsulDNS K) = None \<and> Labels ns (keyConsulDNS K) = None \<longrightarrow>
      consulDNSEnabled K ns p g' = Inr g')"
  by (simp add: transparentProxyEnabled_def consulDNSEnabled_def ParseBool_valid ParseBool_invalid)

theorem three_tier_resolution_witness:
  "transparentProxyEnabled testK (testNS [keyTransparentProxy testK \<mapsto> ''false''])
     (testPod [keyTransparentProxy testK \<mapsto> ''true'', keyConsulDNS testK \<mapsto> ''0'']) False = Inr True \<and>
   consulDNSEnabled testK (testNS [keyConsulDNS testK \<mapsto> ''true''])
     (testPod [keyTransparentProxy testK \<mapsto> ''true'', keyConsulDNS testK \<mapsto> ''0'']) True = Inr False \<and>
   transparentProxyEnabled testK (testNS [keyTransparentProxy testK \<mapsto> ''true''])
     (testPod [keyTransparentProxy testK \<mapsto> ''yes'', keyConsulDNS testK \<mapsto> []]) True
       = Inl (ErrParseBool ''yes'') \<and>
   consulDNSEnabled testK (testNS [keyConsulDNS testK \<mapsto> ''true''])
     (testPod [keyTransparentProxy testK \<mapsto> ''yes'', keyConsulDNS testK \<mapsto> []]) True
       = Inl (ErrParseBool []) \<and>
   transparentProxyEnabled testK
     (testNS [keyTransparentProxy testK \<mapsto> ''T'', keyConsulDNS testK \<mapsto> ''F''])
     (testPod Map.empty) False = Inr True \<and>
   consulDNSEnabled testK
     (testNS [keyTransparentProxy testK \<mapsto> ''T'', keyConsulDNS testK \<mapsto> ''F''])
     (testPod Map.empty) True = Inr False \<and>
   transparentProxyEnabled testK
     (testNS [keyTransparentProxy testK \<mapsto> ''on'', keyConsulDNS testK \<mapsto> ''off''])
     (testPod Map.empty) True = Inl (ErrParseBool ''on'') \<and>
   consulDNSEnabled testK
     (testNS [keyTransparentProxy testK \<mapsto> ''on'', keyConsulDNS testK \<mapsto> ''off''])
     (testPod Map.empty) True = Inl (ErrParseBool ''off'') \<and>
   transparentProxyEnabled testK (testNS Map.empty) (testPod Map.empty) True = Inr True \<and>
   consulDNSEnabled testK (testNS Map.empty) (testPod Map.empty) False = Inr False"
  using
    three_tier_resolution [of
      "testPod [keyTransparentProxy testK \<mapsto> ''true'', keyConsulDNS testK \<mapsto> ''0'']" testK
      "''true''" "testNS [keyTransparentProxy testK \<mapsto> ''false'']" False "''false''" "''0''" True "''true''"]
    three_tier_resolution [of
      "testPod [keyTransparentProxy testK \<mapsto> ''true'', keyConsulDNS testK \<mapsto> ''0'']" testK
      "''true''" "testNS [keyConsulDNS testK \<mapsto> ''true'']" False "''false''" "''0''" True "''true''"]
    three_tier_resolution [of
      "testPod [keyTransparentProxy testK \<mapsto> ''yes'', keyConsulDNS testK \<mapsto> []]" testK
      "''yes''" "testNS [keyTransparentProxy testK \<mapsto> ''true'']" True "''true''" "[]" True "''true''"]
    three_tier_resolution [of
      "testPod [keyTransparentProxy testK \<mapsto> ''yes'', keyConsulDNS testK \<mapsto> []]" testK
      "''yes''" "testNS [keyConsulDNS testK \<mapsto> ''true'']" True "''true''" "[]" True "''true''"]
    three_tier_resolution [of "testPod Map.empty" testK "''x''"
      "testNS [keyTransparentProxy testK \<mapsto> ''T'', keyConsulDNS testK \<mapsto> ''F'']"
      False "''T''" "''x''" True "''F''"]
    three_tier_resolution [of "testPod Map.empty" testK "''x''"
      "testNS [keyTransparentProxy testK \<mapsto> ''on'', keyConsulDNS testK \<mapsto> ''off'']"
      True "''on''" "''x''" True "''off''"]
    three_tier_resolution [of "testPod Map.empty" testK "''x''" "testNS Map.empty"
      True "''x''" "''x''" False "''x''"]
  by (simp add: testK_keys testPod_def testNS_def validBool_def isTrue_def)
section \<open>Properties of the init container\<close>

lemma bindE_Inr: "bindE m f = Inr y \<longleftrightarrow> (\<exists>x. m = Inr x \<and> f x = Inr y)"
  by (cases m) (simp_all add: bindE_def)

lemma bindE_InlE:
  assumes "bindE m f = Inl e"
  obtains "m = Inl e" | x where "m = Inr x" and "f x = Inl e"
  using assms by (cases m) (simp_all add: bindE_def)

lemma collab_Inr: "collab r = Inr x \<longleftrightarrow> r = Inr x"
  by (cases r) (simp_all add: collab_def)

lemma collab_Inl: "collab r = Inl e \<longleftrightarrow> (\<exists>msg. r = Inl msg \<and> e = ErrCollaborator msg)"
  by (cases r) (auto simp: collab_def)

lemma ParseBool_error: "ParseBool s = Inl e \<Longrightarrow> \<not> isTLSError e"
  by (auto simp: ParseBool_def isTLSError_def split: if_splits)

lemma transparentProxyEnabled_error: "transparentProxyEnabled K ns p g = Inl e \<Longrightarrow> \<not> isTLSError e"
  by (auto simp: transparentProxyEnabled_def isTLSError_def dest: ParseBool_error split: option.splits)

lemma consulDNSEnabled_error: "consulDNSEnabled K ns p g = Inl e \<Longrightarrow> \<not> isTLSError e"
  by (auto simp: consulDNSEnabled_def isTLSError_def dest: ParseBool_error split: option.splits)

lemma collab_error: "collab r = Inl e \<Longrightarrow> \<not> isTLSError e"
  by (auto simp: collab_Inl isTLSError_def)

lemma containerInitData_errors:
  assumes "containerInitData D K w ns p mpi = Inl e"
  shows "\<not> isTLSError e"
  using assms unfolding containerInitData_def Let_def
  apply (elim bindE_InlE)
  apply (erule transparentProxyEnabled_error)
  apply (erule consulDNSEnabled_error)
  apply (simp add: isTLSError_def split: if_splits)
  apply (auto split: if_splits prod.splits elim!: bindE_InlE dest: collab_error)
  done

lemma containerInitData_fields:
  assumes "containerInitData D K w ns p mpi = Inr (data, vm, tp)"
  shows "EnvoyAdminPort data = 19000 + serviceIndex mpi"
    and "MultiPort data = (serviceName mpi \<noteq> [])"
    and "transparentProxyEnabled K ns p (EnableTransparentProxy w) = Inr tp"
    and "PrometheusCAFile data = nonEmptyAnnotation p (annotationPrometheusCAFile K)"
    and "PrometheusCAPath data = nonEmptyAnnotation p (annotationPrometheusCAPath K)"
    and "PrometheusCertFile data = nonEmptyAnnotation p (annotationPrometheusCertFile K)"
    and "PrometheusKeyFile data = nonEmptyAnnotation p (annotationPrometheusKeyFile K)"
  using assms
  unfolding containerInitData_def Let_def
  by (auto simp: bindE_Inr collab_Inr split: if_splits prod.splits)

lemma nonEmptyAnnotation_given: "nonEmptyAnnotation p k \<noteq> [] \<longleftrightarrow> annotationGiven p k"
  by (simp add: nonEmptyAnnotation_def annotationGiven_def split: option.splits)

lemma prometheusTLSError_cases:
  assumes "containerInitData D K w ns p mpi = Inr (data, vm, tp)"
  shows "prometheusTLSError data =
     (if \<not> (annotationGiven p (annotationPrometheusCAFile K)
             \<or> annotationGiven p (annotationPrometheusCAPath K)
             \<or> annotationGiven p (annotationPrometheusCertFile K)
             \<or> annotationGiven p (annotationPrometheusKeyFile K)) then None
      else if \<not> annotationGiven p (annotationPrometheusCAFile K)
              \<and> \<not> annotationGiven p (annotationPrometheusCAPath K) then Some ErrPrometheusCA
      else if \<not> annotationGiven p (annotationPrometheusCertFile K) then Some ErrPrometheusCert
      else if \<not> annotationGiven p (annotationPrometheusKeyFile K) then Some ErrPrometheusKey
      else None)"
proof -
  note f = containerInitData_fields(4-7)[OF assms]
  have g: "PrometheusCAFile data = [] \<longleftrightarrow> \<not> annotationGiven p (annotationPrometheusCAFile K)"
    "PrometheusCAPath data = [] \<longleftrightarrow> \<not> annotationGiven p (annotationPrometheusCAPath K)"
    "PrometheusCertFile data = [] \<longleftrightarrow> \<not> annotationGiven p (annotationPrometheusCertFile K)"
    "PrometheusKeyFile data = [] \<longleftrightarrow> \<not> annotationGiven p (annotationPrometheusKeyFile K)"
    by (simp_all add: f nonEmptyAnnotation_given[symmetric])
  show ?thesis
    unfolding prometheusTLSError_def g by auto
qed

lemma containerInit_after_data:
  assumes "containerInitData D K w ns p mpi = Inr (data, vm, tp)"
  shows "containerInit D K w ns p mpi =
     (case prometheusTLSError data of
        Some e \<Rightarrow> Inl e
      | None \<Rightarrow>
          Inr \<lparr> Name = (if serviceName mpi \<noteq> []
                        then InjectInitContainerName @ ''-'' @ serviceName mpi
                        else InjectInitContainerName),
                Image = ImageConsulK8S w,
                Command = [''/bin/sh'', ''-ec'', renderCommand D data],
                Env = [\<lparr> EnvName = ''HOST_IP'', FieldPath = ''status.hostIP'' \<rparr>,
                       \<lparr> EnvName = ''POD_IP'', FieldPath = ''status.podIP'' \<rparr>,
                       \<lparr> EnvName = ''POD_NAME'', FieldPath = ''metadata.name'' \<rparr>,
                       \<lparr> EnvName = ''POD_NAMESPACE'', FieldPath = ''metadata.namespace'' \<rparr>],
                Resources = InitContainerResources w,
                Ports = [],
                VolumeMounts = vm,
                SecurityContext = initSecurityContext tp (EnableCNI w) \<rparr>)"
  by (simp add: containerInit_def assms bindE_def)

lemma containerInit_data_error:
  assumes "containerInitData D K w ns p mpi = Inl e"
  shows "containerInit D K w ns p mpi = Inl e"
  by (simp add: containerInit_def assms bindE_def)

text \<open>
  C4. The Prometheus TLS validation of \<open>containerInit\<close>: once the call reaches it, it
  fails exactly when at least one of the four TLS annotations is given and the set is
  incomplete, with the CA error when neither CA file nor CA path is given, else the
  certificate error when the certificate file is missing, else the key error when the key
  file is missing. With a CA, a certificate and a key, or with none of the four, the call
  returns a container.
\<close>

theorem prometheus_tls_validation:
  "(containerInit D K w ns p mpi = Inl ErrPrometheusCA \<longleftrightarrow>
      reachesTLSValidation D K w ns p mpi
      \<and> (annotationGiven p (annotationPrometheusCertFile K)
           \<or> annotationGiven p (annotationPrometheusKeyFile K))
      \<and> \<not> annotationGiven p (annotationPrometheusCAFile K)
      \<and> \<not> annotationGiven p (annotationPrometheusCAPath K)) \<and>
   (containerInit D K w ns p mpi = Inl ErrPrometheusCert \<longleftrightarrow>
      reachesTLSValidation D K w ns p mpi
      \<and> (annotationGiven p (annotationPrometheusCAFile K)
           \<or> annotationGiven p (annotationPrometheusCAPath K))
      \<and> \<not> annotationGiven p (annotationPrometheusCertFile K)) \<and>
   (containerInit D K w ns p mpi = Inl ErrPrometheusKey \<longleftrightarrow>
      reachesTLSValidation D K w ns p mpi
      \<and> (annotationGiven p (annotationPrometheusCAFile K)
           \<or> annotationGiven p (annotationPrometheusCAPath K))
      \<and> annotationGiven p (annotationPrometheusCertFile K)
      \<and> \<not> annotationGiven p (annotationPrometheusKeyFile K)) \<and>
   ((\<exists>c. containerInit D K w ns p mpi = Inr c) \<longleftrightarrow>
      reachesTLSValidation D K w ns p mpi
      \<and> ((\<not> annotationGiven p (annotationPrometheusCAFile K)
            \<and> \<not> annotationGiven p (annotationPrometheusCAPath K)
            \<and> \<not> annotationGiven p (annotationPrometheusCertFile K)
            \<and> \<not> annotationGiven p (annotationPrometheusKeyFile K))
          \<or> ((annotationGiven p (annotationPrometheusCAFile K)
                \<or> annotationGiven p (annotationPrometheusCAPath K))
              \<and> annotationGiven p (annotationPrometheusCertFile K)
              \<and> annotationGiven p (annotationPrometheusKeyFile K))))"
proof (cases "containerInitData D K w ns p mpi")
  case (Inl e)
  then show ?thesis
    using containerInitData_errors[OF Inl] containerInit_data_error[OF Inl]
    by (simp add: reachesTLSValidation_def isTLSError_def)
next
  case (Inr d)
  obtain data vm tp where d: "d = (data, vm, tp)"
    by (cases d) auto
  have r: "reachesTLSValidation D K w ns p mpi"
    by (simp add: reachesTLSValidation_def Inr)
  show ?thesis
    unfolding containerInit_after_data[OF Inr[unfolded d]]
      prometheusTLSError_cases[OF Inr[unfolded d]]
    using r by auto
qed

lemma testK_tls_keys:
  "annotationService testK = ''consul.hashicorp.com/connect-service''"
  "annotationPrometheusCAFile testK = ''consul.hashicorp.com/prometheus-ca-file''"
  "annotationPrometheusCAPath testK = ''consul.hashicorp.com/prometheus-ca-path''"
  "annotationPrometheusCertFile testK = ''consul.hashicorp.com/prometheus-cert-file''"
  "annotationPrometheusKeyFile testK = ''consul.hashicorp.com/prometheus-key-file''"
  by (simp_all add: testK_def)

lemma tlsPod_given:
  "annotationGiven (tlsPod a b c d) (annotationPrometheusCAFile testK) = (a \<noteq> [])"
  "annotationGiven (tlsPod a b c d) (annotationPrometheusCAPath testK) = (b \<noteq> [])"
  "annotationGiven (tlsPod a b c d) (annotationPrometheusCertFile testK) = (c \<noteq> [])"
  "annotationGiven (tlsPod a b c d) (annotationPrometheusKeyFile testK) = (d \<noteq> [])"
  by (simp_all add: annotationGiven_def tlsPod_def testPod_def testK_tls_keys)

lemma tlsPod_reaches:
  "reachesTLSValidation testDeps testK testWebhook (testNS Map.empty) (tlsPod a b c d) noMultiPort"
  by (simp add: reachesTLSValidation_def containerInitData_def bindE_def collab_def Let_def
      transparentProxyEnabled_def consulDNSEnabled_def tlsPod_def testPod_def testNS_def
      testWebhook_def testDeps_def testK_def noMultiPort_def)

theorem prometheus_tls_validation_witness:
  "containerInit testDeps testK testWebhook (testNS Map.empty)
     (tlsPod [] [] ''/certs/server.crt'' ''/certs/key.pem'') noMultiPort = Inl ErrPrometheusCA \<and>
   containerInit testDeps testK testWebhook (testNS Map.empty)
     (tlsPod ''/certs/ca.crt'' [] [] ''/certs/key.pem'') noMultiPort = Inl ErrPrometheusCert \<and>
   containerInit testDeps testK testWebhook (testNS Map.empty)
     (tlsPod [] ''/certs/ca/'' ''/certs/server.crt'' []) noMultiPort = Inl ErrPrometheusKey \<and>
   (\<exists>c. containerInit testDeps testK testWebhook (testNS Map.empty)
     (tlsPod ''/certs/ca.crt'' ''/certs/ca/'' ''/certs/server.crt'' ''/certs/key.pem'') noMultiPort = Inr c) \<and>
   (\<exists>c. containerInit testDeps testK testWebhook (testNS Map.empty)
     (tlsPod [] [] [] []) noMultiPort = Inr c)"
  using
    prometheus_tls_validation [of testDeps testK testWebhook "testNS Map.empty"
      "tlsPod [] [] ''/certs/server.crt'' ''/certs/key.pem''" noMultiPort]
    prometheus_tls_validation [of testDeps testK testWebhook "testNS Map.empty"
      "tlsPod ''/certs/ca.crt'' [] [] ''/certs/key.pem''" noMultiPort]
    prometheus_tls_validation [of testDeps testK testWebhook "testNS Map.empty"
      "tlsPod [] ''/certs/ca/'' ''/certs/server.crt'' []" noMultiPort]
    prometheus_tls_validation [of testDeps testK testWebhook "testNS Map.empty"
      "tlsPod ''/certs/ca.crt'' ''/certs/ca/'' ''/certs/server.crt'' ''/certs/key.pem''" noMultiPort]
    prometheus_tls_validation [of testDeps testK testWebhook "testNS Map.empty"
      "tlsPod [] [] [] []" noMultiPort]
  by (simp add: tlsPod_given tlsPod_reaches)
text \<open>
  C9. The security context of every init container that \<open>containerInit\<close> returns: with
  transparent proxying enabled and CNI disabled it is privileged, user and group 0,
  \<open>RunAsNonRoot\<close> false, capability \<open>NET_ADMIN\<close> added; with transparent proxying and
  CNI both enabled it is unprivileged, user and group 5996, \<open>RunAsNonRoot\<close> true, all
  capabilities dropped; with transparent proxying disabled there is none.
\<close>

theorem init_security_context:
  assumes "containerInit D K w ns p mpi = Inr c"
  shows "\<exists>tproxy. transparentProxyEnabled K ns p (EnableTransparentProxy w) = Inr tproxy \<and>
     (tproxy \<and> \<not> EnableCNI w \<longrightarrow>
        SecurityContext c =
          Some \<lparr> RunAsUser = Some 0, RunAsGroup = Some 0, RunAsNonRoot = Some False,
                 Privileged = Some True, ReadOnlyRootFilesystem = None,
                 Capabilities = Some \<lparr> Add = [''NET_ADMIN''], Drop = [] \<rparr> \<rparr>) \<and>
     (tproxy \<and> EnableCNI w \<longrightarrow>
        SecurityContext c =
          Some \<lparr> RunAsUser = Some 5996, RunAsGroup = Some 5996, RunAsNonRoot = Some True,
                 Privileged = Some False, ReadOnlyRootFilesystem = None,
                 Capabilities = Some \<lparr> Add = [], Drop = [''ALL''] \<rparr> \<rparr>) \<and>
     (\<not> tproxy \<longrightarrow> SecurityContext c = None)"
proof (cases "containerInitData D K w ns p mpi")
  case (Inl e)
  with assms show ?thesis
    by (simp add: containerInit_data_error)
next
  case (Inr d)
  obtain data vm tp where d: "d = (data, vm, tp)"
    by (cases d) auto
  note dat = Inr[unfolded d]
  have tp: "transparentProxyEnabled K ns p (EnableTransparentProxy w) = Inr tp"
    by (rule containerInitData_fields(3)[OF dat])
  from assms have "SecurityContext c = initSecurityContext tp (EnableCNI w)"
    unfolding containerInit_after_data[OF dat]
    by (auto split: option.splits)
  then show ?thesis
    using tp
    by (simp add: initSecurityContext_def rootUserAndGroupID_def initContainersUserAndGroupID_def
        netAdminCapability_def)
qed

lemma test_transparentProxyEnabled:
  "transparentProxyEnabled testK (testNS Map.empty) (tlsPod a b c d) g = Inr g"
  by (simp add: transparentProxyEnabled_def tlsPod_def testPod_def testNS_def testK_def)

lemma test_containerInit_succeeds:
  "\<exists>c. containerInit testDeps testK
          (testWebhook \<lparr> EnableTransparentProxy := t, EnableCNI := cni \<rparr>)
          (testNS Map.empty) (tlsPod [] [] [] []) mpi = Inr c"
  by (simp add: containerInit_def containerInitData_def bindE_def collab_def Let_def
      transparentProxyEnabled_def consulDNSEnabled_def tlsPod_def testPod_def testNS_def
      testWebhook_def testDeps_def testK_def prometheusTLSError_def nonEmptyAnnotation_def)

theorem init_security_context_witness:
  "(\<exists>c. containerInit testDeps testK
          (testWebhook \<lparr> EnableTransparentProxy := True, EnableCNI := False \<rparr>)
          (testNS Map.empty) (tlsPod [] [] [] []) noMultiPort = Inr c \<and>
        SecurityContext c =
          Some \<lparr> RunAsUser = Some 0, RunAsGroup = Some 0, RunAsNonRoot = Some False,
                 Privileged = Some True, ReadOnlyRootFilesystem = None,
                 Capabilities = Some \<lparr> Add = [''NET_ADMIN''], Drop = [] \<rparr> \<rparr>) \<and>
   (\<exists>c. containerInit testDeps testK
          (testWebhook \<lparr> EnableTransparentProxy := True, EnableCNI := True \<rparr>)
          (testNS Map.empty) (tlsPod [] [] [] []) noMultiPort = Inr c \<and>
        SecurityContext c =
          Some \<lparr> RunAsUser = Some 5996, RunAsGroup = Some 5996, RunAsNonRoot = Some True,
                 Privileged = Some False, ReadOnlyRootFilesystem = None,
                 Capabilities = Some \<lparr> Add = [], Drop = [''ALL''] \<rparr> \<rparr>) \<and>
   (\<exists>c. containerInit testDeps testK
          (testWebhook \<lparr> EnableTransparentProxy := False, EnableCNI := False \<rparr>)
          (testNS Map.empty) (tlsPod [] [] [] []) noMultiPort = Inr c \<and>
        SecurityContext c = None)"
proof -
  obtain c1 where c1: "containerInit testDeps testK
      (testWebhook \<lparr> EnableTransparentProxy := True, EnableCNI := False \<rparr>)
      (testNS Map.empty) (tlsPod [] [] [] []) noMultiPort = Inr c1"
    using test_containerInit_succeeds by blast
  obtain c2 where c2: "containerInit testDeps testK
      (testWebhook \<lparr> EnableTransparentProxy := True, EnableCNI := True \<rparr>)
      (testNS Map.empty) (tlsPod [] [] [] []) noMultiPort = Inr c2"
    using test_containerInit_succeeds by blast
  obtain c3 where c3: "containerInit testDeps testK
      (testWebhook \<lparr> EnableTransparentProxy := False, EnableCNI := False \<rparr>)
      (testNS Map.empty) (tlsPod [] [] [] []) noMultiPort = Inr c3"
    using test_containerInit_succeeds by blast
  show ?thesis
    using init_security_context[OF c1] init_security_context[OF c2] init_security_context[OF c3]
      c1 c2 c3
    by (auto simp: test_transparentProxyEnabled)
qed
subsection \<open>The Envoy admin port\<close>

lemma Contains_Nil: "Contains s []"
  by (cases s) (simp_all add: HasPrefix_def)

lemma Contains_prefixI: "Contains (s @ b) s"
proof (cases "s @ b")
  case Nil
  then show ?thesis by simp
next
  case (Cons x xs)
  have "HasPrefix (s @ b) s"
    by (simp add: HasPrefix_def)
  then show ?thesis
    by (simp add: Cons)
qed

lemma Contains_append_left: "Contains b s \<Longrightarrow> Contains (a @ b) s"
  by (induction a) simp_all

lemma renderCommand_admin_bind:
  assumes "MultiPort data"
  shows "Contains (renderCommand D data)
           (flagLine (''-admin-bind=127.0.0.1:'' @ intString (sint (EnvoyAdminPort data))))"
  unfolding renderCommand_def renderEnvoyBootstrap_def
  using assms
  apply (simp only: if_True append_assoc)
  apply (rule Contains_prefixI | rule Contains_append_left)+
  done

lemma renderCommand_no_admin_port:
  assumes "\<not> MultiPort data"
  shows "renderCommand D (data \<lparr> EnvoyAdminPort := x \<rparr>) = renderCommand D data"
  using assms
  by (simp add: renderCommand_def renderEnvoyBootstrap_def renderAddresses_def
      renderConnectInit_def renderRedirectTraffic_def)

lemma prometheusTLSError_admin_port:
  "prometheusTLSError (data \<lparr> EnvoyAdminPort := x \<rparr>) = prometheusTLSError data"
  by (simp add: prometheusTLSError_def)

lemma sint_19000: "sint (19000 :: 64 word) = 19000"
  by simp

lemma admin_port_no_overflow:
  assumes "0 \<le> sint (i :: 64 word)" and "sint i \<le> 2 ^ 63 - 19001"
  shows "sint (19000 + i) = 19000 + sint i"
proof -
  have "sint (19000 + i) = signed_take_bit 63 (19000 + sint i)"
    by (simp only: sint_word_ariths sint_19000) simp
  also have "\<dots> = 19000 + sint i"
    using assms by (intro signed_take_bit_int_eq_self) simp_all
  finally show ?thesis .
qed

lemma containerInitData_serviceIndex:
  "containerInitData D K w ns p (mpi \<lparr> serviceIndex := j \<rparr>) =
     (case containerInitData D K w ns p mpi of
        Inl e \<Rightarrow> Inl e
      | Inr (data, vm, tp) \<Rightarrow> Inr (data \<lparr> EnvoyAdminPort := 19000 + j \<rparr>, vm, tp))"
  unfolding containerInitData_def Let_def
  by (auto simp: bindE_def collab_def split: sum.splits prod.splits if_splits)
text \<open>
  C7. In a multiport call with service index \<open>i\<close> the admin port of the template data is
  \<open>19000 + i\<close> (Go's addition on \<open>int\<close>; as integers whenever \<open>0 \<le> i\<close> and the sum
  does not exceed the largest \<open>int\<close>), and the command of the returned container holds the
  flag \<open>-admin-bind=127.0.0.1:<port>\<close>. Outside multiport mode the port is not rendered:
  the container does not depend on the index. Two calls for the same pod with distinct
  indices get distinct admin ports.
\<close>

theorem envoy_admin_port:
  "(containerInitData D K w ns p mpi = Inr (data, vm, tp) \<longrightarrow>
      EnvoyAdminPort data = 19000 + serviceIndex mpi \<and>
      MultiPort data = (serviceName mpi \<noteq> []) \<and>
      (0 \<le> sint (serviceIndex mpi) \<and> sint (serviceIndex mpi) \<le> 2 ^ 63 - 19001 \<longrightarrow>
         sint (EnvoyAdminPort data) = 19000 + sint (serviceIndex mpi))) \<and>
   (containerInit D K w ns p mpi = Inr c \<and> serviceName mpi \<noteq> [] \<longrightarrow>
      (\<exists>cmd. Command c = [''/bin/sh'', ''-ec'', cmd] \<and>
         Contains cmd
           (flagLine (''-admin-bind=127.0.0.1:'' @ intString (sint (19000 + serviceIndex mpi)))))) \<and>
   (serviceName mpi = [] \<longrightarrow>
      containerInit D K w ns p (mpi \<lparr> serviceIndex := j \<rparr>) = containerInit D K w ns p mpi) \<and>
   (containerInitData D K w ns p mpi = Inr (data, vm, tp) \<and>
    containerInitData D K w ns p mpi' = Inr (data', vm', tp') \<and>
    serviceIndex mpi \<noteq> serviceIndex mpi' \<longrightarrow>
      EnvoyAdminPort data \<noteq> EnvoyAdminPort data')"
proof (intro conjI impI)
  assume d: "containerInitData D K w ns p mpi = Inr (data, vm, tp)"
  show "EnvoyAdminPort data = 19000 + serviceIndex mpi"
    by (rule containerInitData_fields(1)[OF d])
  show "MultiPort data = (serviceName mpi \<noteq> [])"
    by (rule containerInitData_fields(2)[OF d])
next
  assume d: "containerInitData D K w ns p mpi = Inr (data, vm, tp)"
    and b: "0 \<le> sint (serviceIndex mpi) \<and> sint (serviceIndex mpi) \<le> 2 ^ 63 - 19001"
  show "sint (EnvoyAdminPort data) = 19000 + sint (serviceIndex mpi)"
    using admin_port_no_overflow[of "serviceIndex mpi"] b
    by (simp add: containerInitData_fields(1)[OF d])
next
  assume a: "containerInit D K w ns p mpi = Inr c \<and> serviceName mpi \<noteq> []"
  show "\<exists>cmd. Command c = [''/bin/sh'', ''-ec'', cmd] \<and>
         Contains cmd
           (flagLine (''-admin-bind=127.0.0.1:'' @ intString (sint (19000 + serviceIndex mpi))))"
  proof (cases "containerInitData D K w ns p mpi")
    case (Inl e)
    with a show ?thesis
      by (simp add: containerInit_data_error)
  next
    case (Inr d)
    obtain data0 vm0 tp0 where d: "d = (data0, vm0, tp0)"
      by (cases d) auto
    note dat = Inr[unfolded d]
    have m: "MultiPort data0"
      using a by (simp add: containerInitData_fields(2)[OF dat])
    have "Command c = [''/bin/sh'', ''-ec'', renderCommand D data0]"
      using a unfolding containerInit_after_data[OF dat]
      by (auto split: option.splits)
    moreover have "Contains (renderCommand D data0)
        (flagLine (''-admin-bind=127.0.0.1:'' @ intString (sint (19000 + serviceIndex mpi))))"
      using renderCommand_admin_bind[OF m, of D]
      by (simp add: containerInitData_fields(1)[OF dat])
    ultimately show ?thesis
      by blast
  qed
next
  assume n: "serviceName mpi = []"
  show "containerInit D K w ns p (mpi \<lparr> serviceIndex := j \<rparr>) = containerInit D K w ns p mpi"
  proof (cases "containerInitData D K w ns p mpi")
    case (Inl e)
    then show ?thesis
      by (simp add: containerInit_def containerInitData_serviceIndex bindE_def)
  next
    case (Inr d)
    obtain data0 vm0 tp0 where d: "d = (data0, vm0, tp0)"
      by (cases d) auto
    note dat = Inr[unfolded d]
    have m: "\<not> MultiPort data0"
      using n by (simp add: containerInitData_fields(2)[OF dat])
    have dat': "containerInitData D K w ns p (mpi \<lparr> serviceIndex := j \<rparr>) =
        Inr (data0 \<lparr> EnvoyAdminPort := 19000 + j \<rparr>, vm0, tp0)"
      by (simp add: containerInitData_serviceIndex dat)
    show ?thesis
      unfolding containerInit_after_data[OF dat] containerInit_after_data[OF dat']
      by (simp add: prometheusTLSError_admin_port renderCommand_no_admin_port[OF m]
          split: option.splits)
  qed
next
  assume a: "containerInitData D K w ns p mpi = Inr (data, vm, tp) \<and>
    containerInitData D K w ns p mpi' = Inr (data', vm', tp') \<and>
    serviceIndex mpi \<noteq> serviceIndex mpi'"
  then have "EnvoyAdminPort data = 19000 + serviceIndex mpi"
    and "EnvoyAdminPort data' = 19000 + serviceIndex mpi'"
    using containerInitData_fields(1)[of D K w ns p mpi data vm tp]
      containerInitData_fields(1)[of D K w ns p mpi' data' vm' tp']
    by blast+
  with a show "EnvoyAdminPort data \<noteq> EnvoyAdminPort data'"
    by simp
qed

end
